theory Spec2Isabelle
  imports Complex_Main "HOL-Library.Multiset"
begin

section \<open>Data model of the sale and debt ledger\<close>

text \<open>
  The tables of \<^verbatim>\<open>app/models\<close> are lists of rows, in insertion order; a row is a
  record of the columns the sale ledger reads or writes. Primary keys and the other
  integer columns are Python integers (\<open>int\<close>). A \<^verbatim>\<open>Decimal\<close> is the rational
  number it denotes (\<open>rat\<close>), of any scale, as the request schemas accept it;
  \<open>+\<close>, \<open>-\<close>, \<open>*\<close> and the comparisons on it are those of the rationals (the
  rounding of a result to the 28 significant digits of the arithmetic context is not
  part of the model). Free-text descriptions are left out; timestamps are integers.
\<close>

datatype SaleStatus = COMPLETED | PARTIALLY_PAID | DEBT | CANCELLED | PENDING

datatype PaymentMethod = CASH | CARD | TRANSFER

datatype TransactionType = SALE | PURCHASE | EXPENSE | REFUND | DEBT_PAYMENT

record Client =
  c_id :: int
  c_debt_amount :: rat

record ProductVariant =
  pv_id :: int
  pv_sku :: string
  pv_stock_quantity :: int

record Sale =
  s_id :: int
  s_receipt_number :: string
  s_client_id :: "int option"
  s_total_amount :: rat
  s_paid_amount :: rat
  s_payment_method :: PaymentMethod
  s_status :: SaleStatus
  s_notes :: "string option"
  s_user_id :: int

record SaleItem =
  si_id :: int
  si_sale_id :: int
  si_product_variant_id :: int
  si_quantity :: int
  si_unit_price :: rat
  si_total_price :: rat

record Transaction =
  t_id :: int
  t_user_id :: "int option"
  t_amount :: rat
  t_transaction_type :: TransactionType
  t_sale_id :: "int option"
  t_client_id :: "int option"
  t_created_at :: int

record User =
  u_id :: int

text \<open>The request bodies of \<^verbatim>\<open>app/schemas/sale.py\<close>.\<close>

record SaleItemCreate =
  ic_product_variant_id :: int
  ic_quantity :: int
  ic_unit_price :: rat

record SaleCreate =
  sc_client_id :: "int option"
  sc_total_amount :: rat
  sc_paid_amount :: rat
  sc_payment_method :: PaymentMethod
  sc_notes :: "string option"
  sc_items :: "SaleItemCreate list"

record DebtPaymentRequest =
  dp_client_id :: int
  dp_payment_amount :: rat

text \<open>
  The store as the database holds it after a commit. An operation returns its result
  together with the store that is committed when it ends: changes made in the session
  after the last \<^verbatim>\<open>commit()\<close> are lost when the operation raises. The table of users
  is not part of the store; the current user of an operation is one of its rows.
\<close>

record db =
  clients :: "Client list"
  product_variants :: "ProductVariant list"
  sales :: "Sale list"
  sale_items :: "SaleItem list"
  transactions :: "Transaction list"

text \<open>
  What an operation raises. The first group are the \<^verbatim>\<open>HTTPException\<close>s of the
  service (status code 400 unless noted), which the request handlers catch and report;
  the second group are the exceptions no handler catches.
\<close>

datatype error =
    ClientNotFound nat
      \<comment> \<open>"Client not found", with its status code: 400 in create_sale, 404 elsewhere\<close>
  | VariantNotFound int
      \<comment> \<open>"Product variant with ID {id} not found"\<close>
  | InsufficientStock string
      \<comment> \<open>"Insufficient stock for product variant {sku}"\<close>
  | InvalidPayment
      \<comment> \<open>"Paid amount cannot exceed total amount"\<close>
  | SaleNotFound
      \<comment> \<open>404 "Sale not found"\<close>
  | InvalidState string
      \<comment> \<open>the detail names the state: already cancelled, cancelled, fully paid\<close>
  | ExceedsDebt rat
      \<comment> \<open>"Payment amount exceeds remaining debt. Remaining debt: {remaining_debt}"\<close>
  | ExceedsClientDebt
      \<comment> \<open>"Payment amount exceeds debt amount" (client-level payment)\<close>
  | UnboundLocalError string
      \<comment> \<open>a local variable read before any assignment\<close>
  | TypeError string
      \<comment> \<open>"{k} is an invalid keyword argument for Transaction"\<close>
  | IntegrityError string
      \<comment> \<open>a constraint of the schema refused the row; the column is named\<close>
  | DataError
      \<comment> \<open>a value is out of the range of its column\<close>


subsection \<open>Columns\<close>

text \<open>
  A \<^verbatim>\<open>Numeric(10, 2)\<close> column stores the value it is given rounded to two places,
  ties away from zero, and refuses it (\<^verbatim>\<open>DataError\<close>) when the rounded value has more
  than eight digits before the point. An \<^verbatim>\<open>Integer\<close> column holds 32 bits.
\<close>

definition round2 :: "rat \<Rightarrow> rat" where
  "round2 x =
     (if 0 \<le> x then of_int \<lfloor>x * 100 + 1 / 2\<rfloor> / 100
      else - (of_int \<lfloor>- x * 100 + 1 / 2\<rfloor> / 100))"

definition fits_numeric :: "rat \<Rightarrow> bool" where
  "fits_numeric x = (\<bar>round2 x\<bar> < 100000000)"

definition fits_int4 :: "int \<Rightarrow> bool" where
  "fits_int4 n = (- 2147483648 \<le> n \<and> n \<le> 2147483647)"

text \<open>Whether an optional foreign key names a row of its table.\<close>

definition references_client :: "db \<Rightarrow> int option \<Rightarrow> bool" where
  "references_client d client_id =
     (case client_id of None \<Rightarrow> True | Some k \<Rightarrow> k \<in> set (map c_id (clients d)))"

definition references_sale :: "db \<Rightarrow> int option \<Rightarrow> bool" where
  "references_sale d sale_id =
     (case sale_id of None \<Rightarrow> True | Some k \<Rightarrow> k \<in> set (map s_id (sales d)))"

subsection \<open>Rows, keys and the mapped constructor\<close>

text \<open>
  The primary keys of new rows come from the sequences of the database; which values
  they hand out is not determined by the rows of the store (a refused insert uses one
  up). An operation is given the keys its inserts draw: one for the sale, one for each
  sale item, by position, and one for the transaction. A key that is already in its
  table is refused by the primary key.
\<close>

record keys =
  sale_key :: int
  item_key :: "nat \<Rightarrow> int"
  transaction_key :: int

text \<open>
  The session keeps one object per primary key, so a change made through any reference
  to a row is a change of that row: \<open>update_variant\<close> changes the row with the given
  key, \<open>update_client\<close> and \<open>update_sale\<close> write the changed object back under
  its key.
\<close>

definition update_variant :: "int \<Rightarrow> (ProductVariant \<Rightarrow> ProductVariant) \<Rightarrow> db \<Rightarrow> db" where
  "update_variant vid f d =
     d\<lparr>product_variants := map (\<lambda>v. if pv_id v = vid then f v else v) (product_variants d)\<rparr>"

definition update_client :: "Client \<Rightarrow> db \<Rightarrow> db" where
  "update_client client d =
     d\<lparr>clients := map (\<lambda>c. if c_id c = c_id client then client else c) (clients d)\<rparr>"

definition update_sale :: "Sale \<Rightarrow> db \<Rightarrow> db" where
  "update_sale sale d =
     d\<lparr>sales := map (\<lambda>s. if s_id s = s_id sale then sale else s) (sales d)\<rparr>"

text \<open>
  The attributes of the mapped class \<^verbatim>\<open>Transaction\<close> (its columns and relationships,
  \<^verbatim>\<open>app/models/transaction.py\<close>). The class derives from \<^verbatim>\<open>Base\<close> of
  \<^verbatim>\<open>app.database\<close>, taken to be SQLAlchemy's declarative base: its constructor
  takes keyword arguments and raises \<^verbatim>\<open>TypeError\<close> at the first keyword that is not an
  attribute of the class. \<open>Transaction_init\<close> is given the keywords a call site writes
  and the row those keywords describe.
\<close>

definition Transaction_attributes :: "string list" where
  "Transaction_attributes =
     [''id'', ''user_id'', ''amount'', ''description'', ''transaction_type'',
      ''sale_id'', ''client_id'', ''created_at'', ''sale'', ''client'']"

definition Transaction_init :: "string list \<Rightarrow> Transaction \<Rightarrow> error + Transaction" where
  "Transaction_init kwargs row =
     (case find (\<lambda>k. k \<notin> set Transaction_attributes) kwargs of
        Some k \<Rightarrow> Inl (TypeError k)
      | None \<Rightarrow> Inr row)"

text \<open>
  Inserting a transaction with the key the sequence gives it. The amount must fit its
  column and is stored rounded; \<^verbatim>\<open>user_id\<close> is declared \<^verbatim>\<open>nullable=False\<close>; the
  key must be new; the client and the sale it names must exist.
\<close>

definition insert_transaction :: "Transaction \<Rightarrow> int \<Rightarrow> db \<Rightarrow> error + db" where
  "insert_transaction row key d =
     (if \<not> fits_numeric (t_amount row) then Inl DataError
      else if t_user_id row = None then Inl (IntegrityError ''transactions.user_id'')
      else if key \<in> set (map t_id (transactions d)) then Inl (IntegrityError ''transactions.id'')
      else if \<not> references_client d (t_client_id row)
      then Inl (IntegrityError ''transactions.client_id'')
      else if \<not> references_sale d (t_sale_id row)
      then Inl (IntegrityError ''transactions.sale_id'')
      else Inr (d\<lparr>transactions :=
                  transactions d @ [row\<lparr>t_id := key, t_amount := round2 (t_amount row)\<rparr>]\<rparr>))"

section \<open>\<^verbatim>\<open>SaleService.create_sale\<close>\<close>

text \<open>
  Lines 26 to 33: the client is looked up only when \<^verbatim>\<open>sale_data.client_id\<close> is truthy
  (neither \<^verbatim>\<open>None\<close> nor 0). The result is the binding of the local variable
  \<^verbatim>\<open>client\<close>: \<open>None\<close> when the branch was skipped and the variable was never assigned.
\<close>

definition lookup_client :: "db \<Rightarrow> int option \<Rightarrow> error + Client option" where
  "lookup_client d client_id =
     (case client_id of
        None \<Rightarrow> Inr None
      | Some cid \<Rightarrow>
          if cid = 0 then Inr None
          else (case find (\<lambda>c. c_id c = cid) (clients d) of
                  None \<Rightarrow> Inl (ClientNotFound 400)
                | Some client \<Rightarrow> Inr (Some client)))"

text \<open>
  Lines 38 to 62: the validation loop. Each item is checked against the stock the store
  holds; nothing is changed. An entry of the local list \<^verbatim>\<open>sale_items\<close> (here
  \<open>item_infos\<close>) refers to the variant object, by its key, and carries the item and
  its total.
\<close>

type_synonym item_info = "int \<times> SaleItemCreate \<times> rat"

fun check_items ::
  "db \<Rightarrow> SaleItemCreate list \<Rightarrow> rat \<Rightarrow> item_info list \<Rightarrow> error + (rat \<times> item_info list)" where
  "check_items d [] total_amount item_infos = Inr (total_amount, item_infos)"
| "check_items d (item_data # rest) total_amount item_infos =
     (case find (\<lambda>v. pv_id v = ic_product_variant_id item_data) (product_variants d) of
        None \<Rightarrow> Inl (VariantNotFound (ic_product_variant_id item_data))
      | Some product_variant \<Rightarrow>
          if pv_stock_quantity product_variant < ic_quantity item_data
          then Inl (InsufficientStock (pv_sku product_variant))
          else
            (let item_total = ic_unit_price item_data * of_int (ic_quantity item_data)
             in check_items d rest (total_amount + item_total)
                  (item_infos @ [(pv_id product_variant, item_data, item_total)])))"

text \<open>Lines 70 to 75: the status of the new sale.\<close>

definition sale_status :: "rat \<Rightarrow> rat \<Rightarrow> SaleStatus" where
  "sale_status paid_amount total_amount =
     (if paid_amount = 0 then DEBT
      else if paid_amount = total_amount then COMPLETED
      else PARTIALLY_PAID)"

text \<open>
  Lines 78 to 80: the unpaid part is added to the client's debt and committed at once.
  The variable \<^verbatim>\<open>client\<close> is read here whether or not it was assigned. The commit
  writes the new debt into its column.
\<close>

definition add_client_debt :: "db \<Rightarrow> Client option \<Rightarrow> rat \<Rightarrow> error + db" where
  "add_client_debt d client unpaid =
     (case client of
        None \<Rightarrow> Inl (UnboundLocalError ''client'')
      | Some c \<Rightarrow>
          (let debt_amount = c_debt_amount c + unpaid
           in if fits_numeric debt_amount
              then Inr (update_client (c\<lparr>c_debt_amount := round2 debt_amount\<rparr>) d)
              else Inl DataError))"

text \<open>
  Lines 83 to 96: the sale row is added and flushed with the key the sequence gives it.
  Both amounts must fit their columns and are stored rounded. The key must be new,
  \<^verbatim>\<open>receipt_number\<close> is declared unique and the generated number is not checked before
  the insert, and \<^verbatim>\<open>client_id\<close> is a foreign key.
\<close>

definition insert_sale :: "Sale \<Rightarrow> int \<Rightarrow> db \<Rightarrow> error + (Sale \<times> db)" where
  "insert_sale row key d =
     (if \<not> (fits_numeric (s_total_amount row) \<and> fits_numeric (s_paid_amount row))
      then Inl DataError
      else if key \<in> set (map s_id (sales d)) then Inl (IntegrityError ''sales.id'')
      else if s_receipt_number row \<in> set (map s_receipt_number (sales d))
      then Inl (IntegrityError ''sales.receipt_number'')
      else if \<not> references_client d (s_client_id row)
      then Inl (IntegrityError ''sales.client_id'')
      else
        (let db_sale = row\<lparr>s_id := key,
                           s_total_amount := round2 (s_total_amount row),
                           s_paid_amount := round2 (s_paid_amount row)\<rparr>
         in Inr (db_sale, d\<lparr>sales := sales d @ [db_sale]\<rparr>)))"

text \<open>
  Lines 99 to 110. The item rows the loop builds, numbered in the order of the loop, and
  the stock of each variant lowered on its object, once for every item that names it.
\<close>

fun sale_item_rows :: "int \<Rightarrow> (nat \<Rightarrow> int) \<Rightarrow> nat \<Rightarrow> item_info list \<Rightarrow> SaleItem list" where
  "sale_item_rows sale_id key_of n [] = []"
| "sale_item_rows sale_id key_of n ((variant_id, item_data, item_total) # rest) =
     \<lparr>si_id = key_of n,
      si_sale_id = sale_id,
      si_product_variant_id = variant_id,
      si_quantity = ic_quantity item_data,
      si_unit_price = ic_unit_price item_data,
      si_total_price = item_total\<rparr>
     # sale_item_rows sale_id key_of (Suc n) rest"

fun lower_stock :: "item_info list \<Rightarrow> db \<Rightarrow> db" where
  "lower_stock [] d = d"
| "lower_stock ((variant_id, item_data, item_total) # rest) d =
     lower_stock rest
       (update_variant variant_id
          (\<lambda>v. v\<lparr>pv_stock_quantity := pv_stock_quantity v - ic_quantity item_data\<rparr>) d)"

text \<open>
  These changes reach the database with the commit of line 124: every item row must
  fit its columns and have a new key, and the stock each touched variant ends with must
  fit its column. The prices of an item are stored rounded.
\<close>

definition sale_item_fits :: "SaleItem \<Rightarrow> bool" where
  "sale_item_fits row =
     (fits_int4 (si_quantity row) \<and> fits_numeric (si_unit_price row)
      \<and> fits_numeric (si_total_price row))"

definition stored_sale_item :: "SaleItem \<Rightarrow> SaleItem" where
  "stored_sale_item row =
     row\<lparr>si_unit_price := round2 (si_unit_price row),
         si_total_price := round2 (si_total_price row)\<rparr>"

definition add_sale_items :: "int \<Rightarrow> (nat \<Rightarrow> int) \<Rightarrow> item_info list \<Rightarrow> db \<Rightarrow> error + db" where
  "add_sale_items sale_id key_of item_infos d =
     (let rows = sale_item_rows sale_id key_of 0 item_infos;
          session = lower_stock item_infos d
      in if \<not> (list_all sale_item_fits rows
                \<and> list_all (\<lambda>v. if pv_id v \<in> set (map fst item_infos)
                                  then fits_int4 (pv_stock_quantity v) else True)
                     (product_variants session))
         then Inl DataError
         else if \<not> (distinct (map si_id rows)
                      \<and> list_all (\<lambda>row. si_id row \<notin> set (map si_id (sale_items d))) rows)
         then Inl (IntegrityError ''sale_items.id'')
         else Inr (session\<lparr>sale_items := sale_items d @ map stored_sale_item rows\<rparr>))"

text \<open>Lines 113 to 122: a transaction for the paid part, when there is one.\<close>

definition add_sale_transaction ::
  "SaleCreate \<Rightarrow> User \<Rightarrow> Sale \<Rightarrow> int \<Rightarrow> int \<Rightarrow> db \<Rightarrow> error + db" where
  "add_sale_transaction sale_data current_user db_sale now key d =
     (if sc_paid_amount sale_data > 0 then
        (case Transaction_init
                [''transaction_type'', ''amount'', ''description'', ''sale_id'', ''client_id'',
                 ''user_id'']
                \<lparr>t_id = 0,
                 t_user_id = Some (u_id current_user),
                 t_amount = sc_paid_amount sale_data,
                 t_transaction_type = SALE,
                 t_sale_id = Some (s_id db_sale),
                 t_client_id = sc_client_id sale_data,
                 t_created_at = now\<rparr> of
           Inl e \<Rightarrow> Inl e
         | Inr transaction \<Rightarrow> insert_transaction transaction key d)
      else Inr d)"

text \<open>
  The whole operation. \<open>receipt_number\<close> is what \<^verbatim>\<open>generate_receipt_number()\<close>
  returned, \<open>now\<close> the time of the database and \<open>new_keys\<close> the keys its sequences
  give. The second component is the committed store: \<open>d\<close> itself when the operation
  raised before the commit of line 80, the store of line 80 when it raised after it,
  the store of line 124 when it returned. The sale returned is the row as the database
  holds it (\<^verbatim>\<open>refresh\<close>, line 125).
\<close>

definition create_sale ::
  "db \<Rightarrow> SaleCreate \<Rightarrow> User \<Rightarrow> string \<Rightarrow> int \<Rightarrow> keys \<Rightarrow> (error + Sale) \<times> db" where
  "create_sale d sale_data current_user receipt_number now new_keys =
     (case lookup_client d (sc_client_id sale_data) of
        Inl e \<Rightarrow> (Inl e, d)
      | Inr client \<Rightarrow>
     (case check_items d (sc_items sale_data) 0 [] of
        Inl e \<Rightarrow> (Inl e, d)
      | Inr (total_amount, item_infos) \<Rightarrow>
     if sc_paid_amount sale_data > total_amount then (Inl InvalidPayment, d)
     else
     (case (if sc_paid_amount sale_data < total_amount
            then add_client_debt d client (total_amount - sc_paid_amount sale_data)
            else Inr d) of
        Inl e \<Rightarrow> (Inl e, d)
      | Inr committed \<Rightarrow>
     (case insert_sale
             \<lparr>s_id = 0,
              s_receipt_number = receipt_number,
              s_client_id = sc_client_id sale_data,
              s_total_amount = total_amount,
              s_paid_amount = sc_paid_amount sale_data,
              s_payment_method = sc_payment_method sale_data,
              s_status = sale_status (sc_paid_amount sale_data) total_amount,
              s_notes = sc_notes sale_data,
              s_user_id = u_id current_user\<rparr>
             (sale_key new_keys) committed of
        Inl e \<Rightarrow> (Inl e, committed)
      | Inr (db_sale, flushed) \<Rightarrow>
     (case add_sale_items (s_id db_sale) (item_key new_keys) item_infos flushed of
        Inl e \<Rightarrow> (Inl e, committed)
      | Inr with_items \<Rightarrow>
     (case add_sale_transaction sale_data current_user db_sale now (transaction_key new_keys)
             with_items of
        Inl e \<Rightarrow> (Inl e, committed)
      | Inr final \<Rightarrow> (Inr db_sale, final)))))))"

section \<open>\<^verbatim>\<open>SaleService.cancel_sale\<close>\<close>

definition get_sale :: "db \<Rightarrow> int \<Rightarrow> Sale option" where
  "get_sale d sale_id = find (\<lambda>s. s_id s = sale_id) (sales d)"

text \<open>The relationship \<^verbatim>\<open>sale.items\<close>: the item rows that carry the sale's key.\<close>

definition items_of :: "db \<Rightarrow> Sale \<Rightarrow> SaleItem list" where
  "items_of d sale = filter (\<lambda>i. si_sale_id i = s_id sale) (sale_items d)"

text \<open>Lines 183 to 188: the stock of every item goes back to its variant, if it still exists.\<close>

fun restore_stock :: "SaleItem list \<Rightarrow> db \<Rightarrow> db" where
  "restore_stock [] d = d"
| "restore_stock (item # rest) d =
     restore_stock rest
       (case find (\<lambda>v. pv_id v = si_product_variant_id item) (product_variants d) of
          None \<Rightarrow> d
        | Some product_variant \<Rightarrow>
            update_variant (pv_id product_variant)
              (\<lambda>v. v\<lparr>pv_stock_quantity := pv_stock_quantity v + si_quantity item\<rparr>) d)"

text \<open>
  The state of the session after line 191, before anything is committed: stock restored
  and the sale marked cancelled.
\<close>

definition cancel_sale_session :: "db \<Rightarrow> Sale \<Rightarrow> db" where
  "cancel_sale_session d sale =
     update_sale (sale\<lparr>s_status := CANCELLED\<rparr>) (restore_stock (items_of d sale) d)"

text \<open>
  Lines 194 to 201 build the refund with the keywords \<^verbatim>\<open>type\<close> and
  \<^verbatim>\<open>reference_number\<close> and without \<^verbatim>\<open>user_id\<close>; the row given to
  \<open>Transaction_init\<close> is the one the call means to build. The commit of line 204 is
  the only one, so an exception before it leaves the store as it was.
\<close>

definition cancel_sale :: "db \<Rightarrow> int \<Rightarrow> int \<Rightarrow> int \<Rightarrow> (error + Sale option) \<times> db" where
  "cancel_sale d sale_id now key =
     (case get_sale d sale_id of
        None \<Rightarrow> (Inr None, d)
      | Some sale \<Rightarrow>
          if s_status sale = CANCELLED
          then (Inl (InvalidState ''Sale is already cancelled''), d)
          else
            (case Transaction_init
                    [''type'', ''amount'', ''description'', ''sale_id'', ''client_id'',
                     ''reference_number'']
                    \<lparr>t_id = 0,
                     t_user_id = None,
                     t_amount = - s_total_amount sale,
                     t_transaction_type = REFUND,
                     t_sale_id = Some (s_id sale),
                     t_client_id = s_client_id sale,
                     t_created_at = now\<rparr> of
               Inl e \<Rightarrow> (Inl e, d)
             | Inr transaction \<Rightarrow>
                 (case insert_transaction transaction key (cancel_sale_session d sale) of
                    Inl e \<Rightarrow> (Inl e, d)
                  | Inr final \<Rightarrow> (Inr (Some (sale\<lparr>s_status := CANCELLED\<rparr>)), final))))"

section \<open>\<^verbatim>\<open>SaleService.pay_debt\<close>\<close>

text \<open>
  Lines 284 to 290: the payment is added and the status set from the new amount, on
  the object, before anything is written.
\<close>

definition apply_payment :: "Sale \<Rightarrow> rat \<Rightarrow> Sale" where
  "apply_payment sale payment_amount =
     (let paid = s_paid_amount sale + payment_amount
      in sale\<lparr>s_paid_amount := paid,
              s_status := (if paid = s_total_amount sale then COMPLETED else PARTIALLY_PAID)\<rparr>)"

text \<open>Lines 293 to 300: the transaction of the payment.\<close>

definition debt_payment_transaction :: "Sale \<Rightarrow> rat \<Rightarrow> User \<Rightarrow> int \<Rightarrow> error + Transaction" where
  "debt_payment_transaction sale payment_amount current_user now =
     Transaction_init
       [''transaction_type'', ''amount'', ''description'', ''sale_id'', ''client_id'', ''user_id'']
       \<lparr>t_id = 0,
        t_user_id = Some (u_id current_user),
        t_amount = payment_amount,
        t_transaction_type = DEBT_PAYMENT,
        t_sale_id = Some (s_id sale),
        t_client_id = s_client_id sale,
        t_created_at = now\<rparr>"

text \<open>
  Lines 303 to 305: the commit writes the new paid amount into its column, rounded, and
  the status; the sale returned is the row as the database then holds it.
\<close>

definition stored_payment :: "Sale \<Rightarrow> Sale" where
  "stored_payment sale = sale\<lparr>s_paid_amount := round2 (s_paid_amount sale)\<rparr>"

definition pay_debt :: "db \<Rightarrow> int \<Rightarrow> rat \<Rightarrow> User \<Rightarrow> int \<Rightarrow> int \<Rightarrow> (error + Sale) \<times> db" where
  "pay_debt d sale_id payment_amount current_user now key =
     (case get_sale d sale_id of
        None \<Rightarrow> (Inl SaleNotFound, d)
      | Some sale \<Rightarrow>
          if s_status sale = CANCELLED
          then (Inl (InvalidState ''Cannot pay debt for cancelled sale''), d)
          else if s_status sale = COMPLETED
          then (Inl (InvalidState ''Sale is already fully paid''), d)
          else
            (let remaining_debt = s_total_amount sale - s_paid_amount sale
             in if payment_amount > remaining_debt then (Inl (ExceedsDebt remaining_debt), d)
                else
                  (let sale = apply_payment sale payment_amount
                   in case debt_payment_transaction sale payment_amount current_user now of
                        Inl e \<Rightarrow> (Inl e, d)
                      | Inr transaction \<Rightarrow>
                          if \<not> fits_numeric (s_paid_amount sale) then (Inl DataError, d)
                          else
                            (case insert_transaction transaction key
                                    (update_sale (stored_payment sale) d) of
                               Inl e \<Rightarrow> (Inl e, d)
                             | Inr final \<Rightarrow> (Inr (stored_payment sale), final)))))"

section \<open>The client-level endpoints of \<^verbatim>\<open>app/api/sales.py\<close>\<close>

text \<open>
  \<^verbatim>\<open>process_debt_payment\<close> commits the lowered debt (line 256) before it builds and
  commits the transaction; it returns the new debt of the client, as the database
  holds it.
\<close>

definition process_debt_payment ::
  "db \<Rightarrow> DebtPaymentRequest \<Rightarrow> User \<Rightarrow> int \<Rightarrow> int \<Rightarrow> (error + rat) \<times> db" where
  "process_debt_payment d payment_data current_user now key =
     (case find (\<lambda>c. c_id c = dp_client_id payment_data) (clients d) of
        None \<Rightarrow> (Inl (ClientNotFound 404), d)
      | Some client \<Rightarrow>
          if c_debt_amount client < dp_payment_amount payment_data
          then (Inl ExceedsClientDebt, d)
          else
            (let debt_amount = c_debt_amount client - dp_payment_amount payment_data
             in if \<not> fits_numeric debt_amount then (Inl DataError, d)
                else
                  (let client = client\<lparr>c_debt_amount := round2 debt_amount\<rparr>;
                       committed = update_client client d
                   in case Transaction_init
                             [''client_id'', ''user_id'', ''amount'', ''transaction_type'',
                              ''description'', ''created_at'']
                             \<lparr>t_id = 0,
                              t_user_id = Some (u_id current_user),
                              t_amount = dp_payment_amount payment_data,
                              t_transaction_type = DEBT_PAYMENT,
                              t_sale_id = None,
                              t_client_id = Some (dp_client_id payment_data),
                              t_created_at = now\<rparr> of
                        Inl e \<Rightarrow> (Inl e, committed)
                      | Inr transaction \<Rightarrow>
                          (case insert_transaction transaction key committed of
                             Inl e \<Rightarrow> (Inl e, committed)
                           | Inr final \<Rightarrow> (Inr (c_debt_amount client), final)))))"

text \<open>
  \<^verbatim>\<open>get_client_debt_history\<close>, lines 293 to 298: the client's transactions,
  \<^verbatim>\<open>order_by(Transaction.created_at.desc())\<close>. SQL leaves the order of rows with
  equal keys open; the sort here keeps them in insertion order. An entry carries the
  amount and the balance as the numbers they are; their conversion to \<^verbatim>\<open>float\<close>
  (lines 313 and 314) and of the time to a string are left out.
\<close>

definition order_by_created_at_desc :: "Transaction list \<Rightarrow> Transaction list" where
  "order_by_created_at_desc rows = sort_key (\<lambda>t. - t_created_at t) rows"

record DebtHistoryEntry =
  e_id :: int
  e_type :: TransactionType
  e_amount :: rat
  e_balance :: rat
  e_created_at :: int

text \<open>Lines 300 to 317: the loop over the rows, with the running \<^verbatim>\<open>balance\<close>.\<close>

fun debt_history_loop :: "Transaction list \<Rightarrow> rat \<Rightarrow> DebtHistoryEntry list" where
  "debt_history_loop [] balance = []"
| "debt_history_loop (transaction # rest) balance =
     (let balance =
            (if t_transaction_type transaction = SALE then balance + t_amount transaction
             else if t_transaction_type transaction = DEBT_PAYMENT
             then balance - t_amount transaction
             else balance)
      in \<lparr>e_id = t_id transaction,
          e_type = t_transaction_type transaction,
          e_amount = t_amount transaction,
          e_balance = balance,
          e_created_at = t_created_at transaction\<rparr>
         # debt_history_loop rest balance)"

definition get_client_debt_history :: "db \<Rightarrow> int \<Rightarrow> error + DebtHistoryEntry list" where
  "get_client_debt_history d client_id =
     (case find (\<lambda>c. c_id c = client_id) (clients d) of
        None \<Rightarrow> Inl (ClientNotFound 404)
      | Some client \<Rightarrow>
          Inr (debt_history_loop
                 (order_by_created_at_desc
                    (filter (\<lambda>t. t_client_id t = Some client_id) (transactions d)))
                 0))"

section \<open>Sequences of operations\<close>

text \<open>
  A call of one of the four operations that write the ledger, with its arguments and
  what the environment gave it; \<open>step\<close> is the store the call leaves committed,
  whether it returned or raised, and \<open>run\<close> a sequence of calls.
\<close>

datatype operation =
    CreateSale SaleCreate User string int keys
  | PayDebt int rat User int int
  | CancelSale int int int
  | ProcessDebtPayment DebtPaymentRequest User int int

fun step :: "db \<Rightarrow> operation \<Rightarrow> db" where
  "step d (CreateSale sale_data current_user receipt_number now new_keys) =
     snd (create_sale d sale_data current_user receipt_number now new_keys)"
| "step d (PayDebt sale_id payment_amount current_user now key) =
     snd (pay_debt d sale_id payment_amount current_user now key)"
| "step d (CancelSale sale_id now key) = snd (cancel_sale d sale_id now key)"
| "step d (ProcessDebtPayment payment_data current_user now key) =
     snd (process_debt_payment d payment_data current_user now key)"

definition run :: "db \<Rightarrow> operation list \<Rightarrow> db" where
  "run d ops = foldl step d ops"

section \<open>The specification's terms\<close>

text \<open>
  The total of a request as the specification defines it, the sum over the items of
  \<open>unit_price * quantity\<close>, and its validation rules 2 and 3: every item names an
  existing variant whose stock covers the item's quantity.
\<close>

definition items_total :: "SaleItemCreate list \<Rightarrow> rat" where
  "items_total items = (\<Sum>i\<leftarrow>items. ic_unit_price i * of_int (ic_quantity i))"


text \<open>A value as a \<^verbatim>\<open>Numeric(10, 2)\<close> column holds it.\<close>

definition is_numeric_10_2 :: "rat \<Rightarrow> bool" where
  "is_numeric_10_2 x = (round2 x = x \<and> \<bar>x\<bar> < 100000000)"

text \<open>
  The amounts of money a call is given: for a sale, the paid amount and the unit price of
  every item; for a payment, the amount paid.
\<close>

definition request_amounts :: "SaleCreate \<Rightarrow> rat list" where
  "request_amounts sale_data =
     sc_paid_amount sale_data # map ic_unit_price (sc_items sale_data)"


section \<open>A shop, for the scenarios\<close>

definition cashier :: User where
  "cashier = \<lparr>u_id = 7\<rparr>"

definition shop :: db where
  "shop =
     \<lparr>clients = [\<lparr>c_id = 1, c_debt_amount = 0\<rparr>],
      product_variants =
        [\<lparr>pv_id = 1, pv_sku = ''SKU-A'', pv_stock_quantity = 5\<rparr>,
         \<lparr>pv_id = 2, pv_sku = ''SKU-B'', pv_stock_quantity = 2\<rparr>],
      sales = [], sale_items = [], transactions = []\<rparr>"

definition item :: "int \<Rightarrow> int \<Rightarrow> rat \<Rightarrow> SaleItemCreate" where
  "item variant quantity unit_price =
     \<lparr>ic_product_variant_id = variant, ic_quantity = quantity, ic_unit_price = unit_price\<rparr>"

definition request :: "int option \<Rightarrow> rat \<Rightarrow> SaleItemCreate list \<Rightarrow> SaleCreate" where
  "request client paid items =
     \<lparr>sc_client_id = client, sc_total_amount = items_total items, sc_paid_amount = paid,
      sc_payment_method = CASH, sc_notes = None, sc_items = items\<rparr>"

text \<open>
  The keys of a call whose sale, first item and transaction get the given keys, the
  further items the keys that follow.
\<close>

definition keys_at :: "int \<Rightarrow> int \<Rightarrow> int \<Rightarrow> keys" where
  "keys_at sale first_item transaction =
     \<lparr>sale_key = sale, item_key = (\<lambda>n. first_item + int n), transaction_key = transaction\<rparr>"

text \<open>
  The scenario of the specification: two items, 3 at 1000 and 1 at 500, 2000 paid, sold
  to client 1; \<open>shop_after_sale\<close> is the store it leaves.
\<close>

definition scenario_request :: SaleCreate where
  "scenario_request = request (Some 1) 2000 [item 1 3 1000, item 2 1 500]"

definition shop_after_sale :: db where
  "shop_after_sale =
     run shop [CreateSale scenario_request cashier ''RCP-20240101-AAAAAAAA'' 10 (keys_at 1 1 1)]"

text \<open>The sale row of the scenario, as \<open>shop_after_sale\<close> holds it.\<close>

definition scenario_sale :: Sale where
  "scenario_sale =
     \<lparr>s_id = 1, s_receipt_number = ''RCP-20240101-AAAAAAAA'', s_client_id = Some 1,
      s_total_amount = 3500, s_paid_amount = 2000, s_payment_method = CASH,
      s_status = PARTIALLY_PAID, s_notes = None, s_user_id = 7\<rparr>"

text \<open>The scenario's sale paid in full, and a walk-in sale of four pieces paid at once.\<close>

definition paid_shop :: db where
  "paid_shop = run shop_after_sale [PayDebt 1 1500 cashier 20 2]"

definition completed_shop :: db where
  "completed_shop =
     run shop [CreateSale (request None 4000 [item 1 4 1000]) cashier ''RCP-20240101-CCCCCCCC'' 10
                 (keys_at 1 1 1)]"

section \<open>Basic facts about the operations\<close>

subsection \<open>Columns\<close>

lemma round2_of_int_nonneg: "0 \<le> k \<Longrightarrow> round2 (of_int k / 100) = of_int k / 100"
proof -
  assume k: "0 \<le> k"
  have "\<lfloor>(of_int k :: rat) + 1 / 2\<rfloor> = k"
    by (simp add: floor_unique)
  with k show ?thesis
    by (simp add: round2_def)
qed

lemma round2_of_int_neg: "0 < m \<Longrightarrow> round2 (- (of_int m / 100)) = - (of_int m / 100)"
proof -
  assume m: "0 < m"
  have "\<lfloor>(of_int m :: rat) + 1 / 2\<rfloor> = m"
    by (simp add: floor_unique)
  with m show ?thesis
    by (simp add: round2_def)
qed

lemma round2_zero [simp]: "round2 0 = 0"
proof -
  have "\<lfloor>(1 / 2 :: rat)\<rfloor> = 0"
    by (rule floor_unique) simp_all
  then show ?thesis
    by (simp add: round2_def)
qed

lemma round2_idem [simp]: "round2 (round2 x) = round2 x"
proof (cases "0 \<le> x")
  case True
  then have "0 \<le> \<lfloor>x * 100 + 1 / 2\<rfloor>"
    by simp
  from round2_of_int_nonneg [OF this] True show ?thesis
    by (simp add: round2_def)
next
  case False
  define m where "m = \<lfloor>- x * 100 + 1 / 2\<rfloor>"
  from False have "0 \<le> m"
    by (simp add: m_def)
  have r: "round2 x = - (of_int m / 100)"
    using False by (simp add: round2_def m_def)
  show ?thesis
  proof (cases "m = 0")
    case True
    with r show ?thesis by simp
  next
    case False
    with \<open>0 \<le> m\<close> have "0 < m" by simp
    from round2_of_int_neg [OF this] r show ?thesis by simp
  qed
qed

text \<open>The values of two places are the fixed points of the rounding.\<close>

lemma round2_fixed_iff: "round2 x = x \<longleftrightarrow> (\<exists>n::int. x = of_int n / 100)"
proof
  assume fixed: "round2 x = x"
  show "\<exists>n::int. x = of_int n / 100"
  proof (cases "0 \<le> x")
    case True
    with fixed have "x = of_int \<lfloor>x * 100 + 1 / 2\<rfloor> / 100"
      by (simp add: round2_def)
    then show ?thesis ..
  next
    case False
    with fixed have "x = of_int (- \<lfloor>- x * 100 + 1 / 2\<rfloor>) / 100"
      by (simp add: round2_def)
    then show ?thesis ..
  qed
next
  assume "\<exists>n::int. x = of_int n / 100"
  then obtain n :: int where x: "x = of_int n / 100" ..
  show "round2 x = x"
  proof (cases "0 \<le> n")
    case True
    from round2_of_int_nonneg [OF this] show ?thesis
      unfolding x .
  next
    case False
    then have "0 < - n" by simp
    from round2_of_int_neg [OF this] have "round2 (of_int n / 100) = of_int n / 100"
      by simp
    then show ?thesis
      unfolding x .
  qed
qed

lemma round2_add: "round2 x = x \<Longrightarrow> round2 y = y \<Longrightarrow> round2 (x + y) = x + y"
proof -
  assume "round2 x = x" "round2 y = y"
  then obtain n m :: int where "x = of_int n / 100" "y = of_int m / 100"
    unfolding round2_fixed_iff by blast
  then have "x + y = of_int (n + m) / 100"
    by (simp add: add_divide_distrib)
  then show ?thesis
    unfolding round2_fixed_iff ..
qed

lemma round2_mult_int: "round2 x = x \<Longrightarrow> round2 (x * of_int q) = x * of_int q"
proof -
  assume "round2 x = x"
  then obtain n :: int where "x = of_int n / 100"
    unfolding round2_fixed_iff by blast
  then have "x * of_int q = of_int (n * q) / 100"
    by simp
  then show ?thesis
    unfolding round2_fixed_iff ..
qed

lemma is_numeric_10_2_fits: "is_numeric_10_2 x \<Longrightarrow> round2 x = x \<and> fits_numeric x"
  by (simp add: is_numeric_10_2_def fits_numeric_def)

lemma items_total_two_places:
  "list_all (\<lambda>i. round2 (ic_unit_price i) = ic_unit_price i) items \<Longrightarrow>
     round2 (items_total items) = items_total items"
proof (induction items)
  case Nil
  then show ?case by (simp add: items_total_def)
next
  case (Cons i items)
  then have "round2 (ic_unit_price i * of_int (ic_quantity i))
               = ic_unit_price i * of_int (ic_quantity i)"
    and "round2 (items_total items) = items_total items"
    by (simp_all add: round2_mult_int)
  from round2_add [OF this] show ?case
    by (simp add: items_total_def)
qed

lemma request_amounts_two_places:
  assumes "list_all is_numeric_10_2 (request_amounts sale_data)"
  shows "round2 (sc_paid_amount sale_data) = sc_paid_amount sale_data"
    and "round2 (items_total (sc_items sale_data)) = items_total (sc_items sale_data)"
proof -
  from assms show "round2 (sc_paid_amount sale_data) = sc_paid_amount sale_data"
    by (simp add: request_amounts_def is_numeric_10_2_def)
  from assms have "list_all (\<lambda>i. round2 (ic_unit_price i) = ic_unit_price i) (sc_items sale_data)"
    by (simp add: request_amounts_def is_numeric_10_2_def list_all_iff)
  then show "round2 (items_total (sc_items sale_data)) = items_total (sc_items sale_data)"
    by (rule items_total_two_places)
qed

subsection \<open>The constructor and the insert of a transaction\<close>

lemma Transaction_init_service [simp]:
  "Transaction_init
     [''transaction_type'', ''amount'', ''description'', ''sale_id'', ''client_id'', ''user_id'']
     row = Inr row"
  by (simp add: Transaction_init_def Transaction_attributes_def)

lemma Transaction_init_endpoint [simp]:
  "Transaction_init
     [''client_id'', ''user_id'', ''amount'', ''transaction_type'', ''description'',
      ''created_at'']
     row = Inr row"
  by (simp add: Transaction_init_def Transaction_attributes_def)

lemma Transaction_init_refund [simp]:
  "Transaction_init
     [''type'', ''amount'', ''description'', ''sale_id'', ''client_id'', ''reference_number'']
     row = Inl (TypeError ''type'')"
  by (simp add: Transaction_init_def Transaction_attributes_def)

lemma insert_transaction_frame:
  "insert_transaction row key d = Inr d' \<Longrightarrow>
     sales d' = sales d \<and> clients d' = clients d \<and> product_variants d' = product_variants d
     \<and> sale_items d' = sale_items d
     \<and> transactions d' = transactions d @ [row\<lparr>t_id := key, t_amount := round2 (t_amount row)\<rparr>]"
  by (auto simp: insert_transaction_def split: if_splits)

lemma insert_transaction_needs_user:
  "fits_numeric (t_amount row) \<Longrightarrow> t_user_id row = None \<Longrightarrow>
     insert_transaction row key d = Inl (IntegrityError ''transactions.user_id'')"
  by (simp add: insert_transaction_def)

subsection \<open>create_sale\<close>

lemma lower_stock_frame [simp]:
  "sales (lower_stock infos d) = sales d"
  "clients (lower_stock infos d) = clients d"
  "transactions (lower_stock infos d) = transactions d"
  "sale_items (lower_stock infos d) = sale_items d"
  by (induction infos d rule: lower_stock.induct) (simp_all add: update_variant_def)

lemma add_sale_items_frame:
  "add_sale_items sid key_of infos d = Inr d' \<Longrightarrow>
     sales d' = sales d \<and> clients d' = clients d \<and> transactions d' = transactions d"
  by (auto simp: add_sale_items_def Let_def split: if_splits)

lemma add_sale_transaction_frame:
  "add_sale_transaction sale_data u db_sale now key d = Inr d' \<Longrightarrow>
     sales d' = sales d \<and> clients d' = clients d \<and> product_variants d' = product_variants d
     \<and> sale_items d' = sale_items d"
  by (auto simp: add_sale_transaction_def dest: insert_transaction_frame split: if_splits)

lemma check_items_total:
  "check_items d items tot acc = Inr (tot', infos) \<Longrightarrow> tot' = tot + items_total items"
proof (induction items arbitrary: tot acc)
  case Nil
  then show ?case by (simp add: items_total_def)
next
  case (Cons i items)
  then show ?case
    by (fastforce split: option.splits if_splits simp: Let_def items_total_def)
qed


lemma add_client_debt_frame:
  "add_client_debt d client unpaid = Inr d' \<Longrightarrow>
     sales d' = sales d \<and> product_variants d' = product_variants d
     \<and> sale_items d' = sale_items d \<and> transactions d' = transactions d"
  by (auto simp: add_client_debt_def update_client_def Let_def split: option.splits if_splits)

lemma insert_sale_result:
  "insert_sale row key d = Inr (db_sale, d') \<Longrightarrow>
     db_sale = row\<lparr>s_id := key, s_total_amount := round2 (s_total_amount row),
                   s_paid_amount := round2 (s_paid_amount row)\<rparr>
     \<and> d' = d\<lparr>sales := sales d @ [db_sale]\<rparr>"
  by (auto simp: insert_sale_def Let_def split: if_splits)


lemma create_sale_success:
  assumes "create_sale d req u r now ks = (Inr s, d')"
  shows "\<exists>tot infos. check_items d (sc_items req) 0 [] = Inr (tot, infos)
           \<and> sc_paid_amount req \<le> tot
           \<and> s_total_amount s = round2 tot
           \<and> s_paid_amount s = round2 (sc_paid_amount req)
           \<and> s_status s = sale_status (sc_paid_amount req) tot
           \<and> s_client_id s = sc_client_id req
           \<and> s_id s = sale_key ks
           \<and> sales d' = sales d @ [s]"
  using assms
  by (auto simp: create_sale_def
           split: sum.splits prod.splits if_splits
           dest!: add_sale_transaction_frame add_sale_items_frame insert_sale_result
                  add_client_debt_frame)

subsection \<open>pay_debt\<close>

lemma apply_payment_fields [simp]:
  "s_id (apply_payment s p) = s_id s"
  "s_client_id (apply_payment s p) = s_client_id s"
  "s_total_amount (apply_payment s p) = s_total_amount s"
  "s_paid_amount (apply_payment s p) = s_paid_amount s + p"
  "s_status (apply_payment s p) =
     (if s_paid_amount s + p = s_total_amount s then COMPLETED else PARTIALLY_PAID)"
  by (simp_all add: apply_payment_def Let_def)

lemma stored_payment_fields [simp]:
  "s_id (stored_payment s) = s_id s"
  "s_client_id (stored_payment s) = s_client_id s"
  "s_total_amount (stored_payment s) = s_total_amount s"
  "s_paid_amount (stored_payment s) = round2 (s_paid_amount s)"
  "s_status (stored_payment s) = s_status s"
  by (simp_all add: stored_payment_def)

lemma debt_payment_transaction_row [simp]:
  "debt_payment_transaction sale p u now =
     Inr \<lparr>t_id = 0, t_user_id = Some (u_id u), t_amount = p,
          t_transaction_type = DEBT_PAYMENT, t_sale_id = Some (s_id sale),
          t_client_id = s_client_id sale, t_created_at = now\<rparr>"
  by (simp add: debt_payment_transaction_def)


lemma update_sale_keys [simp]: "map s_id (sales (update_sale sale d)) = map s_id (sales d)"
  by (simp add: update_sale_def)

lemma update_sale_frame [simp]:
  "clients (update_sale sale d) = clients d"
  "product_variants (update_sale sale d) = product_variants d"
  "sale_items (update_sale sale d) = sale_items d"
  "transactions (update_sale sale d) = transactions d"
  by (simp_all add: update_sale_def)

lemma references_client_update_sale [simp]:
  "references_client (update_sale sale d) c = references_client d c"
  by (cases c) (simp_all add: references_client_def)






subsection \<open>cancel_sale and the client-level payment\<close>

lemma cancel_sale_store: "snd (cancel_sale d sale_id now key) = d"
  by (simp add: cancel_sale_def split: option.splits)

lemma restore_stock_clients [simp]: "clients (restore_stock its d) = clients d"
  by (induction its arbitrary: d) (simp_all add: update_variant_def split: option.splits)


subsection \<open>Sequences of operations\<close>




subsection \<open>The debt history\<close>

lemma debt_history_loop_fields [simp]:
  "map e_id (debt_history_loop rows b) = map t_id rows"
  "map e_type (debt_history_loop rows b) = map t_transaction_type rows"
  "map e_amount (debt_history_loop rows b) = map t_amount rows"
  "map e_created_at (debt_history_loop rows b) = map t_created_at rows"
  by (induction rows arbitrary: b) (simp_all add: Let_def)

lemma order_by_created_at_desc_mset [simp]:
  "mset (order_by_created_at_desc rows) = mset rows"
  by (simp add: order_by_created_at_desc_def)

lemma order_by_created_at_desc_sorted:
  "sorted_wrt (\<lambda>a b. b \<le> a) (map t_created_at (order_by_created_at_desc rows))"
proof -
  have "sorted (map (\<lambda>t. - t_created_at t) (order_by_created_at_desc rows))"
    by (simp add: order_by_created_at_desc_def)
  then show ?thesis
    by (simp add: sorted_wrt_map)
qed

section \<open>Claims\<close>

text \<open>
  Claim C1 (create_sale is one atomic unit of work: on a failure no partial state is
  observable, in particular no client's debt changes). The store \<open>shop_after_sale\<close>
  holds a sale with receipt number RCP-20240101-AAAAAAAA and client 1 owes 1500. A second
  sale to client 1, one piece at 100 with nothing paid, passes validation; its debt of
  100 is committed at line 80; the generated receipt number is the one already in use
  and the insert of the sale is refused. The operation ends with this error, no sale,
  item or transaction is added and no stock changes, but the committed store holds the
  client's debt raised to 1600.
\<close>

theorem create_sale_commits_debt_before_sale:
  "create_sale shop_after_sale (request (Some 1) 0 [item 1 1 100]) cashier
     ''RCP-20240101-AAAAAAAA'' 11 (keys_at 2 3 2)
   = (Inl (IntegrityError ''sales.receipt_number''),
      shop_after_sale\<lparr>clients := [\<lparr>c_id = 1, c_debt_amount = 1600\<rparr>]\<rparr>)
   \<and> clients shop_after_sale = [\<lparr>c_id = 1, c_debt_amount = 1500\<rparr>]"
  by code_simp

text \<open>
  Claim C2 (a create_sale never drives a variant's stock below zero, also when its items
  name the same variant more than once). Variant 1 has 5 pieces in stock. A sale with
  two items of 3 pieces each of variant 1, paid in full, passes the stock check item by
  item, succeeds, and leaves the variant with a stock of -1.
\<close>

theorem create_sale_same_variant_twice:
  "create_sale shop (request (Some 1) 6000 [item 1 3 1000, item 1 3 1000]) cashier
     ''RCP-20240101-BBBBBBBB'' 10 (keys_at 1 1 1)
   = (Inr \<lparr>s_id = 1, s_receipt_number = ''RCP-20240101-BBBBBBBB'', s_client_id = Some 1,
           s_total_amount = 6000, s_paid_amount = 6000, s_payment_method = CASH,
           s_status = COMPLETED, s_notes = None, s_user_id = 7\<rparr>,
      \<lparr>clients = [\<lparr>c_id = 1, c_debt_amount = 0\<rparr>],
       product_variants =
         [\<lparr>pv_id = 1, pv_sku = ''SKU-A'', pv_stock_quantity = - 1\<rparr>,
          \<lparr>pv_id = 2, pv_sku = ''SKU-B'', pv_stock_quantity = 2\<rparr>],
       sales =
         [\<lparr>s_id = 1, s_receipt_number = ''RCP-20240101-BBBBBBBB'', s_client_id = Some 1,
           s_total_amount = 6000, s_paid_amount = 6000, s_payment_method = CASH,
           s_status = COMPLETED, s_notes = None, s_user_id = 7\<rparr>],
       sale_items =
         [\<lparr>si_id = 1, si_sale_id = 1, si_product_variant_id = 1, si_quantity = 3,
           si_unit_price = 1000, si_total_price = 3000\<rparr>,
          \<lparr>si_id = 2, si_sale_id = 1, si_product_variant_id = 1, si_quantity = 3,
           si_unit_price = 1000, si_total_price = 3000\<rparr>],
       transactions =
         [\<lparr>t_id = 1, t_user_id = Some 7, t_amount = 6000, t_transaction_type = SALE,
           t_sale_id = Some 1, t_client_id = Some 1, t_created_at = 10\<rparr>]\<rparr>)"
  by code_simp

lemma paid_shop_client:
  "find (\<lambda>c. c_id c = 1) (clients paid_shop) = Some \<lparr>c_id = 1, c_debt_amount = 1500\<rparr>"
  by code_simp

text \<open>
  Claim C3, as amended. For every existing client, \<open>get_client_debt_history\<close>
  returns one entry per transaction of that client, ordered by creation time descending
  (newest first); each entry carries the id, the type, the amount and the creation time
  of its transaction, and a balance.
\<close>

theorem debt_history_newest_first:
  assumes "find (\<lambda>c. c_id c = client_id) (clients d) = Some client"
  shows "\<exists>rows entries.
           get_client_debt_history d client_id = Inr entries
         \<and> mset rows = mset (filter (\<lambda>t. t_client_id t = Some client_id) (transactions d))
         \<and> sorted_wrt (\<lambda>a b. b \<le> a) (map e_created_at entries)
         \<and> map e_id entries = map t_id rows
         \<and> map e_type entries = map t_transaction_type rows
         \<and> map e_amount entries = map t_amount rows
         \<and> map e_created_at entries = map t_created_at rows"
proof -
  define rows where
    "rows = order_by_created_at_desc
              (filter (\<lambda>t. t_client_id t = Some client_id) (transactions d))"
  have "get_client_debt_history d client_id = Inr (debt_history_loop rows 0)"
    using assms by (simp add: get_client_debt_history_def rows_def)
  moreover have "mset rows = mset (filter (\<lambda>t. t_client_id t = Some client_id) (transactions d))"
    by (simp add: rows_def)
  moreover have "sorted_wrt (\<lambda>a b. b \<le> a) (map e_created_at (debt_history_loop rows 0))"
    unfolding rows_def by (simp add: order_by_created_at_desc_sorted)
  ultimately show ?thesis
    by (intro exI [of _ rows] exI [of _ "debt_history_loop rows 0"]) simp
qed

text \<open>
  The claim as first stated has the entries by creation time ascending. In
  \<open>paid_shop\<close> client 1 has a sale at time 10 and a debt payment at time 20: the
  payment is listed first.
\<close>

theorem debt_history_newest_first_counterexample:
  "get_client_debt_history paid_shop 1 =
     Inr [\<lparr>e_id = 2, e_type = DEBT_PAYMENT, e_amount = 1500, e_balance = - 1500,
            e_created_at = 20\<rparr>,
          \<lparr>e_id = 1, e_type = SALE, e_amount = 2000, e_balance = 500, e_created_at = 10\<rparr>]"
  by code_simp

theorem debt_history_newest_first_witness:
  "find (\<lambda>c. c_id c = 1) (clients paid_shop) = Some \<lparr>c_id = 1, c_debt_amount = 1500\<rparr>
   \<and> (\<exists>entries. get_client_debt_history paid_shop 1 = Inr entries
         \<and> map e_created_at entries = [20, 10]
         \<and> sorted_wrt (\<lambda>a b. b \<le> a) (map e_created_at entries))"
proof -
  from debt_history_newest_first [OF paid_shop_client]
  obtain entries where h: "get_client_debt_history paid_shop 1 = Inr entries"
    "sorted_wrt (\<lambda>a b. b \<le> a) (map e_created_at entries)"
    by blast
  have "get_client_debt_history paid_shop 1 =
     Inr [\<lparr>e_id = 2, e_type = DEBT_PAYMENT, e_amount = 1500, e_balance = - 1500,
            e_created_at = 20\<rparr>,
          \<lparr>e_id = 1, e_type = SALE, e_amount = 2000, e_balance = 500, e_created_at = 10\<rparr>]"
    by code_simp
  with h(1) have c: "map e_created_at entries = [20, 10]"
    by auto
  from h(1) c h(2)
  have "\<exists>entries. get_client_debt_history paid_shop 1 = Inr entries
         \<and> map e_created_at entries = [20, 10]
         \<and> sorted_wrt (\<lambda>a b. b \<le> a) (map e_created_at entries)"
    by (intro exI [of _ entries] conjI)
  with paid_shop_client show ?thesis
    by (rule conjI)
qed

text \<open>
  Claim C4 (cancel_sale succeeds on every existing sale that is not cancelled, restores
  the stock, sets the status to cancelled and appends a refund of \<open>-total_amount\<close>).
  \<open>completed_shop\<close> holds one completed sale with one item of 4 pieces. Cancelling it
  raises \<^verbatim>\<open>TypeError\<close> when the refund is built, because \<^verbatim>\<open>type\<close> is not an
  attribute of \<^verbatim>\<open>Transaction\<close>; nothing is committed, so the sale stays completed,
  the stock stays as it was and no refund is recorded. The refund is built without a
  user as well, so the insert of the row it describes would be refused too.
\<close>

theorem cancel_sale_raises_type_error:
  "get_sale completed_shop 1 =
     Some \<lparr>s_id = 1, s_receipt_number = ''RCP-20240101-CCCCCCCC'', s_client_id = None,
           s_total_amount = 4000, s_paid_amount = 4000, s_payment_method = CASH,
           s_status = COMPLETED, s_notes = None, s_user_id = 7\<rparr>
   \<and> items_of completed_shop
         \<lparr>s_id = 1, s_receipt_number = ''RCP-20240101-CCCCCCCC'', s_client_id = None,
           s_total_amount = 4000, s_paid_amount = 4000, s_payment_method = CASH,
           s_status = COMPLETED, s_notes = None, s_user_id = 7\<rparr>
       = [\<lparr>si_id = 1, si_sale_id = 1, si_product_variant_id = 1, si_quantity = 4,
            si_unit_price = 1000, si_total_price = 4000\<rparr>]
   \<and> cancel_sale completed_shop 1 30 2 = (Inl (TypeError ''type''), completed_shop)
   \<and> insert_transaction
         \<lparr>t_id = 0, t_user_id = None, t_amount = - 4000, t_transaction_type = REFUND,
          t_sale_id = Some 1, t_client_id = None, t_created_at = 30\<rparr>
         2
         (cancel_sale_session completed_shop
            \<lparr>s_id = 1, s_receipt_number = ''RCP-20240101-CCCCCCCC'', s_client_id = None,
             s_total_amount = 4000, s_paid_amount = 4000, s_payment_method = CASH,
             s_status = COMPLETED, s_notes = None, s_user_id = 7\<rparr>)
       = Inl (IntegrityError ''transactions.user_id'')"
  by code_simp

text \<open>
  Claim C5, as amended. For every successful create_sale whose paid amount and unit
  prices are values of two decimal places, as a \<^verbatim>\<open>Numeric(10, 2)\<close> column holds
  them, the persisted sale has the request's paid amount and the sum of its items as
  total, and its status is: debt when the paid amount is 0 (also when the total is 0),
  partially paid when \<open>0 < paid_amount < total_amount\<close>, and completed when the paid
  amount equals the total and is not 0. The scenario of two items, 3 at 1000 and 1 at
  500, with 2000 paid gives a total of 3500 and the status partially paid.
\<close>

theorem create_sale_status:
  assumes "create_sale d sale_data u r now ks = (Inr sale, d')"
    and "list_all is_numeric_10_2 (request_amounts sale_data)"
  shows "sale \<in> set (sales d')
       \<and> s_paid_amount sale = sc_paid_amount sale_data
       \<and> s_total_amount sale = items_total (sc_items sale_data)
       \<and> (s_paid_amount sale = 0 \<longrightarrow> s_status sale = DEBT)
       \<and> (0 < s_paid_amount sale \<and> s_paid_amount sale < s_total_amount sale \<longrightarrow>
            s_status sale = PARTIALLY_PAID)
       \<and> (s_paid_amount sale = s_total_amount sale \<and> s_paid_amount sale \<noteq> 0 \<longrightarrow>
            s_status sale = COMPLETED)"
proof -
  from create_sale_success [OF assms(1)] obtain tot infos where
    c: "check_items d (sc_items sale_data) 0 [] = Inr (tot, infos)"
    and f: "s_total_amount sale = round2 tot"
      "s_paid_amount sale = round2 (sc_paid_amount sale_data)"
      "s_status sale = sale_status (sc_paid_amount sale_data) tot"
      "sales d' = sales d @ [sale]"
    by blast
  from check_items_total [OF c] have "tot = items_total (sc_items sale_data)"
    by simp
  with f request_amounts_two_places [OF assms(2)] show ?thesis
    by (simp add: sale_status_def)
qed

theorem create_sale_status_witness:
  "create_sale shop scenario_request cashier ''RCP-20240101-AAAAAAAA'' 10 (keys_at 1 1 1)
     = (Inr scenario_sale, shop_after_sale)
   \<and> list_all is_numeric_10_2 (request_amounts scenario_request)
   \<and> scenario_sale \<in> set (sales shop_after_sale)
   \<and> s_paid_amount scenario_sale = 2000
   \<and> s_total_amount scenario_sale = 3500
   \<and> s_status scenario_sale = PARTIALLY_PAID"
proof -
  have run: "create_sale shop scenario_request cashier ''RCP-20240101-AAAAAAAA'' 10 (keys_at 1 1 1)
               = (Inr scenario_sale, shop_after_sale)"
    by code_simp
  have amounts: "list_all is_numeric_10_2 (request_amounts scenario_request)"
    by code_simp
  have paid: "s_paid_amount scenario_sale = 2000"
    and tot: "s_total_amount scenario_sale = 3500"
    by (simp_all add: scenario_sale_def)
  from create_sale_status [OF run amounts] paid tot
  have "scenario_sale \<in> set (sales shop_after_sale)"
    and "s_status scenario_sale = PARTIALLY_PAID"
    by simp_all
  with run amounts paid tot show ?thesis
    by (intro conjI)
qed

text \<open>
  The claim as first stated has every persisted sale with \<open>paid_amount = total_amount\<close>
  completed. A sale without items and with nothing paid is accepted; paid amount and
  total are both 0 and the status is debt. A sale of one piece at 0.334 with 0.331 paid
  gets the status partially paid, and both amounts are stored as 0.33.
\<close>

theorem create_sale_status_counterexample:
  "create_sale shop (request None 0 []) cashier ''RCP-20240101-BBBBBBBB'' 10 (keys_at 1 1 1) =
     (Inr \<lparr>s_id = 1, s_receipt_number = ''RCP-20240101-BBBBBBBB'', s_client_id = None,
           s_total_amount = 0, s_paid_amount = 0, s_payment_method = CASH, s_status = DEBT,
           s_notes = None, s_user_id = 7\<rparr>,
      shop\<lparr>sales :=
             [\<lparr>s_id = 1, s_receipt_number = ''RCP-20240101-BBBBBBBB'', s_client_id = None,
               s_total_amount = 0, s_paid_amount = 0, s_payment_method = CASH,
               s_status = DEBT, s_notes = None, s_user_id = 7\<rparr>]\<rparr>)
   \<and> fst (create_sale shop (request (Some 1) 0.331 [item 1 1 0.334]) cashier
            ''RCP-20240101-BBBBBBBB'' 10 (keys_at 1 1 1)) =
       Inr \<lparr>s_id = 1, s_receipt_number = ''RCP-20240101-BBBBBBBB'', s_client_id = Some 1,
            s_total_amount = 0.33, s_paid_amount = 0.33, s_payment_method = CASH,
            s_status = PARTIALLY_PAID, s_notes = None, s_user_id = 7\<rparr>"
  by code_simp










text \<open>
  Claim C8 (for every sale \<open>0 \<le> paid_amount \<le> total_amount\<close>, and the paid amount
  only goes up, by payments: no accepted input of create_sale or pay_debt, a zero or
  negative amount included, makes it decrease or go below 0). Both operations check
  the upper end only. A sale of one piece at 100 to client 1 with a paid amount of -100
  is accepted: it is stored with the paid amount -100 and the client's debt is raised by
  200. On the scenario's sale, which has 2000 paid, a payment of -500 is accepted and
  lowers the paid amount to 1500.
\<close>

theorem negative_amounts_accepted:
  "create_sale shop (request (Some 1) (- 100) [item 1 1 100]) cashier
     ''RCP-20240101-BBBBBBBB'' 10 (keys_at 1 1 1)
   = (Inr \<lparr>s_id = 1, s_receipt_number = ''RCP-20240101-BBBBBBBB'', s_client_id = Some 1,
           s_total_amount = 100, s_paid_amount = - 100, s_payment_method = CASH,
           s_status = PARTIALLY_PAID, s_notes = None, s_user_id = 7\<rparr>,
      \<lparr>clients = [\<lparr>c_id = 1, c_debt_amount = 200\<rparr>],
       product_variants =
         [\<lparr>pv_id = 1, pv_sku = ''SKU-A'', pv_stock_quantity = 4\<rparr>,
          \<lparr>pv_id = 2, pv_sku = ''SKU-B'', pv_stock_quantity = 2\<rparr>],
       sales =
         [\<lparr>s_id = 1, s_receipt_number = ''RCP-20240101-BBBBBBBB'', s_client_id = Some 1,
           s_total_amount = 100, s_paid_amount = - 100, s_payment_method = CASH,
           s_status = PARTIALLY_PAID, s_notes = None, s_user_id = 7\<rparr>],
       sale_items =
         [\<lparr>si_id = 1, si_sale_id = 1, si_product_variant_id = 1, si_quantity = 1,
           si_unit_price = 100, si_total_price = 100\<rparr>],
       transactions = []\<rparr>)
   \<and> get_sale shop_after_sale 1 = Some scenario_sale
   \<and> s_paid_amount scenario_sale = 2000
   \<and> fst (pay_debt shop_after_sale 1 (- 500) cashier 20 2)
       = Inr \<lparr>s_id = 1, s_receipt_number = ''RCP-20240101-AAAAAAAA'', s_client_id = Some 1,
              s_total_amount = 3500, s_paid_amount = 1500, s_payment_method = CASH,
              s_status = PARTIALLY_PAID, s_notes = None, s_user_id = 7\<rparr>"
  by code_simp

text \<open>
  Claim C9. Neither pay_debt nor cancel_sale changes a client row: the clients of the
  committed store are the same before and after every call of either, successful or
  not, and the changes cancel_sale holds in its session before its commit leave the
  clients alone as well. The client-level \<open>process_debt_payment\<close> is what lowers the
  debt: when it succeeds, the debt of its client is lower by the payment, as its column
  stores the difference, and the transaction it appends is a debt payment linked to no
  sale.
\<close>

theorem sale_level_operations_keep_client_debt:
  "clients (snd (pay_debt d sale_id p u now key)) = clients d
   \<and> clients (snd (cancel_sale d sale_id now key)) = clients d
   \<and> clients (cancel_sale_session d sale) = clients d
   \<and> (\<forall>new_debt d'. process_debt_payment d payment_data u now key = (Inr new_debt, d') \<longrightarrow>
        (\<exists>client row.
            find (\<lambda>c. c_id c = dp_client_id payment_data) (clients d) = Some client
          \<and> new_debt = round2 (c_debt_amount client - dp_payment_amount payment_data)
          \<and> clients d' =
               map (\<lambda>c. if c_id c = dp_client_id payment_data
                         then client\<lparr>c_debt_amount := new_debt\<rparr> else c) (clients d)
          \<and> transactions d' = transactions d @ [row]
          \<and> t_transaction_type row = DEBT_PAYMENT
          \<and> t_amount row = round2 (dp_payment_amount payment_data)
          \<and> t_sale_id row = None))"
proof (intro conjI allI impI)
  show "clients (snd (pay_debt d sale_id p u now key)) = clients d"
    by (simp add: pay_debt_def Let_def insert_transaction_def split: option.splits)
  show "clients (snd (cancel_sale d sale_id now key)) = clients d"
    by (simp add: cancel_sale_store)
  show "clients (cancel_sale_session d sale) = clients d"
    by (simp add: cancel_sale_session_def)
next
  fix new_debt d'
  assume run: "process_debt_payment d payment_data u now key = (Inr new_debt, d')"
  then obtain client where
    found: "find (\<lambda>c. c_id c = dp_client_id payment_data) (clients d) = Some client"
    by (cases "find (\<lambda>c. c_id c = dp_client_id payment_data) (clients d)")
       (simp_all add: process_debt_payment_def)
  then have id: "c_id client = dp_client_id payment_data"
    by (auto simp: find_Some_iff)
  define row where "row =
     \<lparr>t_id = key, t_user_id = Some (u_id u),
      t_amount = round2 (dp_payment_amount payment_data), t_transaction_type = DEBT_PAYMENT,
      t_sale_id = None, t_client_id = Some (dp_client_id payment_data), t_created_at = now\<rparr>"
  from run found id have
    "new_debt = round2 (c_debt_amount client - dp_payment_amount payment_data)
     \<and> clients d' =
          map (\<lambda>c. if c_id c = dp_client_id payment_data
                    then client\<lparr>c_debt_amount := new_debt\<rparr> else c) (clients d)
     \<and> transactions d' = transactions d @ [row]"
    by (auto simp: process_debt_payment_def Let_def update_client_def insert_transaction_def
                   row_def split: if_splits)
  with found show "\<exists>client row.
            find (\<lambda>c. c_id c = dp_client_id payment_data) (clients d) = Some client
          \<and> new_debt = round2 (c_debt_amount client - dp_payment_amount payment_data)
          \<and> clients d' =
               map (\<lambda>c. if c_id c = dp_client_id payment_data
                         then client\<lparr>c_debt_amount := new_debt\<rparr> else c) (clients d)
          \<and> transactions d' = transactions d @ [row]
          \<and> t_transaction_type row = DEBT_PAYMENT
          \<and> t_amount row = round2 (dp_payment_amount payment_data)
          \<and> t_sale_id row = None"
    by (intro exI [of _ client] exI [of _ row]) (simp add: row_def)
qed

theorem sale_level_operations_keep_client_debt_witness:
  "clients shop_after_sale = [\<lparr>c_id = 1, c_debt_amount = 1500\<rparr>]
   \<and> fst (pay_debt shop_after_sale 1 1500 cashier 20 2)
       = Inr (stored_payment (apply_payment scenario_sale 1500))
   \<and> clients (snd (pay_debt shop_after_sale 1 1500 cashier 20 2))
       = [\<lparr>c_id = 1, c_debt_amount = 1500\<rparr>]
   \<and> clients (snd (cancel_sale shop_after_sale 1 30 2)) = [\<lparr>c_id = 1, c_debt_amount = 1500\<rparr>]
   \<and> fst (process_debt_payment shop_after_sale \<lparr>dp_client_id = 1, dp_payment_amount = 500\<rparr>
            cashier 20 2) = Inr 1000
   \<and> clients (snd (process_debt_payment shop_after_sale
                      \<lparr>dp_client_id = 1, dp_payment_amount = 500\<rparr> cashier 20 2))
       = [\<lparr>c_id = 1, c_debt_amount = 1000\<rparr>]"
proof -
  have c: "clients shop_after_sale = [\<lparr>c_id = 1, c_debt_amount = 1500\<rparr>]"
    by code_simp
  have p: "fst (pay_debt shop_after_sale 1 1500 cashier 20 2)
             = Inr (stored_payment (apply_payment scenario_sale 1500))"
    by code_simp
  have f: "fst (process_debt_payment shop_after_sale
                  \<lparr>dp_client_id = 1, dp_payment_amount = 500\<rparr> cashier 20 2) = Inr 1000"
    by code_simp
  then obtain d' where r: "process_debt_payment shop_after_sale
                    \<lparr>dp_client_id = 1, dp_payment_amount = 500\<rparr> cashier 20 2 = (Inr 1000, d')"
    by (cases "process_debt_payment shop_after_sale
                    \<lparr>dp_client_id = 1, dp_payment_amount = 500\<rparr> cashier 20 2") simp
  note k = sale_level_operations_keep_client_debt
             [of shop_after_sale 1 1500 cashier 20 2 scenario_sale
                 "\<lparr>dp_client_id = 1, dp_payment_amount = 500\<rparr>"]
  from k r c have "clients d' = [\<lparr>c_id = 1, c_debt_amount = 1000\<rparr>]"
    by auto
  with r have g: "clients (snd (process_debt_payment shop_after_sale
                      \<lparr>dp_client_id = 1, dp_payment_amount = 500\<rparr> cashier 20 2))
       = [\<lparr>c_id = 1, c_debt_amount = 1000\<rparr>]"
    by simp
  from sale_level_operations_keep_client_debt [of shop_after_sale 1 1500 cashier 30 2] c
  have h: "clients (snd (cancel_sale shop_after_sale 1 30 2))
             = [\<lparr>c_id = 1, c_debt_amount = 1500\<rparr>]"
    by simp
  from k c have i: "clients (snd (pay_debt shop_after_sale 1 1500 cashier 20 2))
       = [\<lparr>c_id = 1, c_debt_amount = 1500\<rparr>]"
    by simp
  from c p i h f g show ?thesis
    by (intro conjI)
qed




end
